theory Spec2Isabelle
  imports Complex_Main
begin

section \<open>The four-bar linkage script \<^verbatim>\<open>leg_linkage/link_animation.py\<close>\<close>

text \<open>
  The script declares a four-bar linkage (joints O, A, B, C; vectors a, b, c, d), a
  driving profile of 360 samples, three initial guesses and the loop-closure function,
  hands them to \<^verbatim>\<open>Mechanism\<close> and calls \<^verbatim>\<open>iterate()\<close>.

  Numbers: the script computes in numpy's float64. The embedding has the driving
  profile twice. The first reading computes in \<^typ>\<open>real\<close>: \<^verbatim>\<open>np.pi\<close> is
  \<^term>\<open>pi\<close>, \<^verbatim>\<open>1e-3\<close> is \<^term>\<open>1 / 1000 :: real\<close>, and no operation rounds; it
  carries the statements that rounding does not touch (lengths, the constants, the
  endpoints and strict bounds of the sweep). The second reading (names ending in
  \<open>64\<close>) rounds every operation to the nearest double, as numpy does; it carries the
  statements that rounding decides (whether steps and difference quotients are equal).
  Arrays are lists.
\<close>

subsection \<open>Errors and results\<close>

datatype error =
    IndexError
  | DomainError
  | ConvergenceError nat
  | SingularSystemError nat

definition and_then :: "error + 'a \<Rightarrow> ('a \<Rightarrow> error + 'b) \<Rightarrow> error + 'b" where
  "and_then m f = (case m of Inl e \<Rightarrow> Inl e | Inr v \<Rightarrow> f v)"

text \<open>\<^verbatim>\<open>x[i]\<close> with a literal index \<open>i \<ge> 0\<close>: Python raises IndexError out of range.\<close>

definition getitem :: "'a list \<Rightarrow> nat \<Rightarrow> error + 'a" where
  "getitem xs i = (if i < length xs then Inr (xs ! i) else Inl IndexError)"

subsection \<open>The numpy functions the script calls\<close>

text \<open>
  \<^verbatim>\<open>np.linspace(start, stop, num)\<close> with the default \<^verbatim>\<open>endpoint=True\<close>, in the
  exact reading (\<open>linspace64\<close> below is the float64 reading), with the steps numpy
  takes: \<^verbatim>\<open>div = num - 1\<close>, \<^verbatim>\<open>delta = stop - start\<close>,
  \<^verbatim>\<open>y = arange(0, num)\<close>; when \<^verbatim>\<open>div > 0\<close> the step is \<^verbatim>\<open>delta / div\<close> and
  \<^verbatim>\<open>y = y * step\<close>, otherwise \<^verbatim>\<open>y = y * delta\<close>; then \<^verbatim>\<open>y += start\<close>, and for
  \<^verbatim>\<open>num > 1\<close> the last entry is overwritten with \<^verbatim>\<open>stop\<close>. (The local name
  \<^verbatim>\<open>div\<close> is written \<open>dv\<close>.)
\<close>

definition linspace :: "real \<Rightarrow> real \<Rightarrow> nat \<Rightarrow> real list" where
  "linspace start stop num =
     (let dv = num - 1;
          delta = stop - start;
          y = (if dv > 0
               then map (\<lambda>i. real i * (delta / real dv) + start) [0..<num]
               else map (\<lambda>i. real i * delta + start) [0..<num])
      in if num > 1 then y[num - 1 := stop] else y)"

text \<open>\<^verbatim>\<open>np.full(n, v)\<close>, \<^verbatim>\<open>np.zeros(n)\<close> and \<^verbatim>\<open>np.deg2rad\<close> on a list of degrees.\<close>

definition full :: "nat \<Rightarrow> real \<Rightarrow> real list" where
  "full n v = replicate n v"

definition zeros :: "nat \<Rightarrow> real list" where
  "zeros n = replicate n 0"

definition deg2rad :: "real list \<Rightarrow> real list" where
  "deg2rad ds = map (\<lambda>x. x * (pi / 180)) ds"

subsection \<open>Joints and vectors\<close>

type_synonym vec2 = "real \<times> real"

definition vadd :: "vec2 \<Rightarrow> vec2 \<Rightarrow> vec2" where
  "vadd p q = (fst p + fst q, snd p + snd q)"

definition vsub :: "vec2 \<Rightarrow> vec2 \<Rightarrow> vec2" where
  "vsub p q = (fst p - fst q, snd p - snd q)"

datatype joint = Joint string

text \<open>
  A vector as the script constructs it: the joint pair, the length \<^verbatim>\<open>r\<close>, the angle
  \<^verbatim>\<open>theta\<close> when the call gives one, the \<^verbatim>\<open>style\<close> when the call gives one; and the
  three resolved series the script reads after the run (\<^verbatim>\<open>pos.thetas\<close>,
  \<^verbatim>\<open>vel.omegas\<close>, \<^verbatim>\<open>acc.alphas\<close>).
\<close>

record vector =
  joints :: "joint \<times> joint"
  vec_r :: real
  vec_theta :: "real option"
  style :: "string option"
  pos_thetas :: "real list"
  vel_omegas :: "real list"
  acc_alphas :: "real list"

text \<open>
  Modelled from the spec: the constructor of class \<^verbatim>\<open>Vector\<close> (module
  \<^verbatim>\<open>mechanism\<close>, imported by the script and not among the source files). The spec's
  resolved time series are append-only during solving, so a new vector has none.
\<close>

definition Vector :: "joint \<times> joint \<Rightarrow> real \<Rightarrow> real option \<Rightarrow> string option \<Rightarrow> vector" where
  "Vector js r th st =
     \<lparr>joints = js, vec_r = r, vec_theta = th, style = st,
      pos_thetas = [], vel_omegas = [], acc_alphas = []\<rparr>"

text \<open>
  Modelled from the spec: calling a vector (\<^verbatim>\<open>Vector.__call__\<close>, not among the source
  files). The spec: the Cartesian component of a Vector is
  \<^verbatim>\<open>length * (cos(angle), sin(angle))\<close>, at the caller-supplied override angle when
  there is one, at the vector's own angle otherwise; DomainError when neither exists.
\<close>

definition polar :: "real \<Rightarrow> real \<Rightarrow> vec2" where
  "polar r t = (r * cos t, r * sin t)"

definition evaluate :: "vector \<Rightarrow> real option \<Rightarrow> error + vec2" where
  "evaluate v override =
     (case override of
        Some t \<Rightarrow> Inr (polar (vec_r v) t)
      | None \<Rightarrow>
          (case vec_theta v of
             Some t \<Rightarrow> Inr (polar (vec_r v) t)
           | None \<Rightarrow> Inl DomainError))"

text \<open>
  Modelled from the spec: \<^verbatim>\<open>record\<close> of a vector (not among the source files)
  extends the three resolved series by exactly one entry.
\<close>

definition record_sample :: "vector \<Rightarrow> real \<times> real \<times> real \<Rightarrow> vector" where
  "record_sample v s =
     (case s of (th, om, al) \<Rightarrow>
        v\<lparr>pos_thetas := pos_thetas v @ [th],
          vel_omegas := vel_omegas v @ [om],
          acc_alphas := acc_alphas v @ [al]\<rparr>)"

subsection \<open>The script: lengths, joints, vectors\<close>

definition L_GROUND :: real where "L_GROUND = 3"
definition L_INPUT :: real where "L_INPUT = 1"
definition L_COUPLER :: real where "L_COUPLER = 3"
definition L_OUTPUT :: real where "L_OUTPUT = 1"

text \<open>
  The script's one-letter names \<^verbatim>\<open>O A B C\<close> and \<^verbatim>\<open>a b c d\<close> are written
  \<open>joint_O\<close> ... and \<open>vec_a\<close> ... (one letter would capture the variables of every
  statement, and \<open>O\<close> is relation composition).
\<close>

definition joint_O :: joint where "joint_O = Joint ''O''"
definition joint_A :: joint where "joint_A = Joint ''A''"
definition joint_B :: joint where "joint_B = Joint ''B''"
definition joint_C :: joint where "joint_C = Joint ''C''"

definition vec_a :: vector where
  "vec_a = Vector (joint_O, joint_A) L_INPUT None None"

definition vec_b :: vector where
  "vec_b = Vector (joint_A, joint_B) L_COUPLER None None"

definition vec_c :: vector where
  "vec_c = Vector (joint_O, joint_C) L_GROUND (Some pi) (Some ''ground'')"

definition vec_d :: vector where
  "vec_d = Vector (joint_C, joint_B) L_OUTPUT None None"

subsection \<open>The script: driving profile and guesses\<close>

definition n_frames :: nat where "n_frames = 360"

definition time :: "real list" where
  "time = linspace 0 1 n_frames"

text \<open>
  \<^verbatim>\<open>time[-1]\<close> is the last entry and \<^verbatim>\<open>time[0]\<close> the first; \<open>time\<close> has 360
  entries (lemma \<open>length_time\<close>), so both reads are in range.
\<close>

definition angular_velocity :: real where
  "angular_velocity = 2 * pi / (time ! (length time - 1) - time ! 0)"

text \<open>Line 45 binds \<^verbatim>\<open>theta\<close> first to \<^verbatim>\<open>angular_velocity * time\<close>; line 51 rebinds it.\<close>

definition theta_line45 :: "real list" where
  "theta_line45 = map (\<lambda>t. angular_velocity * t) time"

definition omega :: "real list" where
  "omega = full n_frames angular_velocity"

definition alpha :: "real list" where
  "alpha = zeros n_frames"

definition eps :: real where "eps = 1 / 1000"

definition theta :: "real list" where
  "theta = linspace eps (2 * pi - eps) n_frames"

definition pos_guess :: "real list" where "pos_guess = deg2rad [45, 90]"
definition vel_guess :: "real list" where "vel_guess = deg2rad [100, 100]"
definition acc_guess :: "real list" where "acc_guess = deg2rad [100, 100]"

subsection \<open>The driving profile in float64\<close>

text \<open>
  Rounding to the nearest double, ties to the even significand: a double has a
  significand of 53 bits, so a real \<open>x\<close> with \<open>2^e \<le> |x| < 2^(e+1)\<close> rounds to the
  nearest multiple of \<open>2^(e-52)\<close>. Exponent range: every number the driving profile
  computes lies between \<open>2^-10\<close> and \<open>2^3\<close>, far inside the range of normal doubles,
  so overflow and subnormal numbers are left out of \<open>fl\<close>.
\<close>

definition round_even :: "real \<Rightarrow> int" where
  "round_even q =
     (let f = \<lfloor>q\<rfloor>; r = q - of_int f
      in if r < 1 / 2 then f else if 1 / 2 < r then f + 1 else if even f then f else f + 1)"

definition fl :: "real \<Rightarrow> real" where
  "fl x =
     (if x = 0 then 0
      else let u = 2 powi (\<lfloor>log 2 \<bar>x\<bar>\<rfloor> - 52)
           in of_int (round_even (x / u)) * u)"

text \<open>The four operations of float64: the exact result, rounded.\<close>

definition fadd :: "real \<Rightarrow> real \<Rightarrow> real" where "fadd x y = fl (x + y)"
definition fsub :: "real \<Rightarrow> real \<Rightarrow> real" where "fsub x y = fl (x - y)"
definition fmul :: "real \<Rightarrow> real \<Rightarrow> real" where "fmul x y = fl (x * y)"
definition fdiv :: "real \<Rightarrow> real \<Rightarrow> real" where "fdiv x y = fl (x / y)"

text \<open>
  \<^verbatim>\<open>np.pi\<close> is the double \<^verbatim>\<open>0x1.921fb54442d18p+1\<close>, that is
  \<open>884279719003555 / 2^48\<close>; the literal \<^verbatim>\<open>1e-3\<close> is the double nearest to
  \<open>1/1000\<close>.
\<close>

definition np_pi :: real where
  "np_pi = 884279719003555 / 281474976710656"

definition eps64 :: real where
  "eps64 = fl (1 / 1000)"

text \<open>
  \<^verbatim>\<open>np.linspace(start, stop, num)\<close> in float64, with numpy's operations in numpy's
  order: \<^verbatim>\<open>delta = stop - start\<close>, \<^verbatim>\<open>step = delta / div\<close>,
  \<^verbatim>\<open>y = arange(0, num) * step\<close> (when the step is zero:
  \<^verbatim>\<open>y = arange(0, num) / div * delta\<close>), \<^verbatim>\<open>y += start\<close>, and the last entry
  overwritten with \<^verbatim>\<open>stop\<close>. The entries of \<^verbatim>\<open>arange\<close> and \<^verbatim>\<open>div\<close> are small
  integers, which are doubles.
\<close>

definition linspace64 :: "real \<Rightarrow> real \<Rightarrow> nat \<Rightarrow> real list" where
  "linspace64 start stop num =
     (let dv = num - 1;
          delta = fsub stop start;
          y = (if dv > 0
               then (let step = fdiv delta (real dv)
                     in if step = 0
                        then map (\<lambda>i. fmul (fdiv (real i) (real dv)) delta) [0..<num]
                        else map (\<lambda>i. fmul (real i) step) [0..<num])
               else map (\<lambda>i. fmul (real i) delta) [0..<num]);
          y' = map (\<lambda>v. fadd v start) y
      in if num > 1 then y'[num - 1 := stop] else y')"

text \<open>Lines 40 to 51 in float64.\<close>

definition time64 :: "real list" where
  "time64 = linspace64 0 1 n_frames"

definition angular_velocity64 :: real where
  "angular_velocity64 =
     fdiv (fmul 2 np_pi) (fsub (time64 ! (length time64 - 1)) (time64 ! 0))"

definition omega64 :: "real list" where
  "omega64 = full n_frames angular_velocity64"

definition theta64 :: "real list" where
  "theta64 = linspace64 eps64 (fsub (fmul 2 np_pi) eps64) n_frames"

subsection \<open>The script: the loop function\<close>

text \<open>
  \<^verbatim>\<open>def loop(x, input): return a(input) + b(x[0]) - c() - d(x[1])\<close>.
  The body reads the module-level names \<^verbatim>\<open>a b c d\<close>; \<open>loop_env\<close> is the body with
  these four as parameters, \<open>loop\<close> the function at the vectors the script declares.
  Python's order of evaluation: \<^verbatim>\<open>a(input)\<close>, \<^verbatim>\<open>x[0]\<close>, \<^verbatim>\<open>b(..)\<close>, the sum,
  \<^verbatim>\<open>c()\<close>, the difference, \<^verbatim>\<open>x[1]\<close>, \<^verbatim>\<open>d(..)\<close>, the difference.
\<close>

definition loop_env ::
  "vector \<Rightarrow> vector \<Rightarrow> vector \<Rightarrow> vector \<Rightarrow> real list \<Rightarrow> real \<Rightarrow> error + vec2" where
  "loop_env va vb vc vd x input =
     and_then (evaluate va (Some input)) (\<lambda>pa.
     and_then (getitem x 0) (\<lambda>x0.
     and_then (evaluate vb (Some x0)) (\<lambda>pb.
     and_then (evaluate vc None) (\<lambda>pc.
     and_then (getitem x 1) (\<lambda>x1.
     and_then (evaluate vd (Some x1)) (\<lambda>pd.
     Inr (vsub (vsub (vadd pa pb) pc) pd)))))))"

definition loop :: "real list \<Rightarrow> real \<Rightarrow> error + vec2" where
  "loop x input = loop_env vec_a vec_b vec_c vec_d x input"

text \<open>
  How the body of \<open>loop\<close> binds the angle of each vector it calls: to the driving
  input (\<^verbatim>\<open>a(input)\<close>), to the unknown \<^verbatim>\<open>x[k]\<close> (\<^verbatim>\<open>b(x[0])\<close>, \<^verbatim>\<open>d(x[1])\<close>), or to
  nothing (\<^verbatim>\<open>c()\<close>, the angle given at construction). \<open>loop_terms\<close> lists the four
  calls of the body from left to right, each with its sign (\<open>True\<close> for \<open>+\<close>);
  \<open>eval_terms\<close> sums such a list, and lemma \<open>loop_eval_terms\<close> shows that the list
  is the body.
\<close>

datatype angle_arg = Driving | Unknown nat | Declared

definition loop_terms :: "(bool \<times> vector \<times> angle_arg) list" where
  "loop_terms =
     [(True, vec_a, Driving), (True, vec_b, Unknown 0),
      (False, vec_c, Declared), (False, vec_d, Unknown 1)]"

definition arg_angle :: "angle_arg \<Rightarrow> real list \<Rightarrow> real \<Rightarrow> error + real option" where
  "arg_angle arg x input =
     (case arg of
        Driving \<Rightarrow> Inr (Some input)
      | Unknown k \<Rightarrow> and_then (getitem x k) (\<lambda>t. Inr (Some t))
      | Declared \<Rightarrow> Inr None)"

fun eval_terms ::
  "vec2 \<Rightarrow> (bool \<times> vector \<times> angle_arg) list \<Rightarrow> real list \<Rightarrow> real \<Rightarrow> error + vec2" where
  "eval_terms s [] x input = Inr s"
| "eval_terms s ((add, v, arg) # ts) x input =
     and_then (arg_angle arg x input) (\<lambda>ang.
     and_then (evaluate v ang) (\<lambda>p.
     eval_terms (if add then vadd s p else vsub s p) ts x input))"

text \<open>The unknowns the body reads: the distinct indices \<open>k\<close> of its \<^verbatim>\<open>x[k]\<close>.\<close>

definition unknown_indices :: "angle_arg list \<Rightarrow> nat list" where
  "unknown_indices bs = remdups (concat (map (\<lambda>b. case b of Unknown k \<Rightarrow> [k] | _ \<Rightarrow> []) bs))"

definition n_unknowns :: nat where
  "n_unknowns = length (unknown_indices (map (\<lambda>t. snd (snd t)) loop_terms))"

definition unknown_vectors :: "vector list" where
  "unknown_vectors =
     map (\<lambda>t. fst (snd t))
       (filter (\<lambda>t. case snd (snd t) of Unknown k \<Rightarrow> True | _ \<Rightarrow> False) loop_terms)"

subsection \<open>The mechanism\<close>

text \<open>
  Modelled from the spec: class \<^verbatim>\<open>Mechanism\<close> and its solver (module \<^verbatim>\<open>mechanism\<close>,
  not among the source files). The fields are the keyword arguments of the script's
  call. \<open>bindings\<close> is the spec's angle role of each vector (driven, unknown, fixed),
  in the order of \<open>vectors\<close>: the script fixes the roles in the body of \<open>loop\<close>, so
  \<open>mech\<close> below takes them from \<open>loop_terms\<close>.
\<close>

record mechanism =
  vectors :: "vector list"
  bindings :: "angle_arg list"
  origin :: joint
  loops :: "real list \<Rightarrow> real \<Rightarrow> error + vec2"
  pos :: "real list"
  vel :: "real list"
  acc :: "real list"
  guess :: "real list \<times> real list \<times> real list"












section \<open>Properties\<close>

subsection \<open>Arrays\<close>

lemma length_linspace: "length (linspace s e n) = n"
  by (simp add: linspace_def Let_def)

lemma linspace_nth:
  assumes "i < n" and "1 < n"
  shows "linspace s e n ! i = s + real i * ((e - s) / real (n - 1))"
proof (cases "i = n - 1")
  case True
  with assms show ?thesis by (simp add: linspace_def Let_def)
next
  case False
  with assms show ?thesis by (simp add: linspace_def Let_def)
qed

lemma length_time: "length time = 360"
  by (simp add: time_def n_frames_def length_linspace)

lemma time_nth: "i < 360 \<Longrightarrow> time ! i = real i / 359"
  by (simp add: time_def n_frames_def linspace_nth)

lemma angular_velocity_eq: "angular_velocity = 2 * pi"
  by (simp add: angular_velocity_def length_time time_nth)

lemma length_theta: "length theta = 360"
  by (simp add: theta_def n_frames_def length_linspace)

lemma theta_nth: "i < 360 \<Longrightarrow> theta ! i = eps + real i * ((2 * pi - 2 * eps) / 359)"
  by (simp add: theta_def n_frames_def linspace_nth)

lemma theta_step_pos: "0 < (2 * pi - 2 * eps) / 359"
proof -
  have "2 \<le> pi" by (rule pi_ge_two)
  then show ?thesis by (simp add: eps_def)
qed

lemma length_omega: "length omega = 360"
  by (simp add: omega_def full_def n_frames_def)

lemma length_alpha: "length alpha = 360"
  by (simp add: alpha_def zeros_def n_frames_def)

subsection \<open>The driving profile\<close>

text \<open>
  Claim C3. The three driving-profile sequences the script passes to the constructor
  (\<open>pos = theta\<close>, \<open>vel = omega\<close>, \<open>acc = alpha\<close>) have the same length, the number
  of frames, which is 360.
\<close>

theorem driving_profile_lengths:
  "length theta = n_frames \<and> length omega = n_frames \<and> length alpha = n_frames \<and>
   n_frames = 360"
  by (simp add: length_theta length_omega length_alpha n_frames_def)

text \<open>
  Claim C6. The example is built with ground length 3 (vector c, from O to C), input
  length 1 (vector a, from O to A), coupler length 3 (vector b, from A to B) and
  output length 1 (vector d, from C to B); the ground vector's angle is fixed at
  \<open>pi\<close>, and no other vector is given an angle.
\<close>

theorem example_link_lengths:
  "vec_r vec_c = L_GROUND \<and> L_GROUND = 3 \<and>
   vec_r vec_a = L_INPUT \<and> L_INPUT = 1 \<and>
   vec_r vec_b = L_COUPLER \<and> L_COUPLER = 3 \<and>
   vec_r vec_d = L_OUTPUT \<and> L_OUTPUT = 1 \<and>
   vec_theta vec_c = Some pi \<and> style vec_c = Some ''ground'' \<and>
   vec_theta vec_a = None \<and> vec_theta vec_b = None \<and> vec_theta vec_d = None"
  by (simp add: vec_a_def vec_b_def vec_c_def vec_d_def Vector_def
      L_GROUND_def L_INPUT_def L_COUPLER_def L_OUTPUT_def)

text \<open>
  Claim C7. At every sample \<open>i\<close> of the 360, the driving velocity is
  \<open>2 pi / (time[N-1] - time[0])\<close>, which is \<open>2 pi\<close>, and the driving acceleration
  is 0.
\<close>

theorem constant_angular_velocity:
  "i < n_frames \<Longrightarrow>
     omega ! i = 2 * pi / (time ! (n_frames - 1) - time ! 0) \<and>
     omega ! i = 2 * pi \<and> alpha ! i = 0"
  by (simp add: omega_def alpha_def full_def zeros_def n_frames_def angular_velocity_eq time_nth)

text \<open>The statement of C7 at sample 0.\<close>

theorem constant_angular_velocity_witness:
  "(0::nat) < n_frames \<and> omega ! 0 = 2 * pi / (time ! (n_frames - 1) - time ! 0) \<and>
   omega ! 0 = 2 * pi \<and> alpha ! 0 = 0"
  using constant_angular_velocity [of 0] by (simp add: n_frames_def)

lemma theta_first: "theta ! 0 = eps"
  by (simp add: theta_nth)

lemma theta_last: "theta ! 359 = 2 * pi - eps"
  by (simp add: theta_nth field_simps)

lemma theta_lower: "i < 360 \<Longrightarrow> eps \<le> theta ! i"
proof -
  assume i: "i < 360"
  have "0 \<le> real i * ((2 * pi - 2 * eps) / 359)"
    using theta_step_pos by (intro mult_nonneg_nonneg) simp_all
  then show ?thesis using i by (simp add: theta_nth)
qed

lemma theta_upper: "i < 360 \<Longrightarrow> theta ! i \<le> 2 * pi - eps"
proof -
  assume i: "i < 360"
  then have "real i \<le> 359" by simp
  then have "real i * ((2 * pi - 2 * eps) / 359) \<le> 359 * ((2 * pi - 2 * eps) / 359)"
    using theta_step_pos by (intro mult_right_mono) simp_all
  then show ?thesis using i by (simp add: theta_nth field_simps)
qed

text \<open>
  Claim C8. Every driving position sample lies strictly between 0 and \<open>2 pi\<close>; the
  first is \<open>eps = 1/1000\<close> and the last is \<open>2 pi - eps\<close>.
\<close>

theorem theta_strictly_inside:
  "i < n_frames \<Longrightarrow>
     0 < theta ! i \<and> theta ! i < 2 * pi \<and>
     theta ! 0 = eps \<and> theta ! (n_frames - 1) = 2 * pi - eps \<and> eps = 1 / 1000"
proof -
  assume "i < n_frames"
  then have i: "i < 360" by (simp add: n_frames_def)
  have e: "0 < eps" by (simp add: eps_def)
  have "0 < theta ! i" using theta_lower [OF i] e by linarith
  moreover have "theta ! i < 2 * pi" using theta_upper [OF i] e by linarith
  moreover have "theta ! (n_frames - 1) = 2 * pi - eps"
    by (simp add: n_frames_def theta_last)
  ultimately show ?thesis by (simp add: theta_first eps_def)
qed

text \<open>The statement of C8 at sample 180.\<close>

theorem theta_strictly_inside_witness:
  "(180::nat) < n_frames \<and> 0 < theta ! 180 \<and> theta ! 180 < 2 * pi \<and>
   theta ! 0 = eps \<and> theta ! (n_frames - 1) = 2 * pi - eps \<and> eps = 1 / 1000"
  using theta_strictly_inside [of 180] by (simp add: n_frames_def)

lemma theta_less: "i < j \<Longrightarrow> j < 360 \<Longrightarrow> theta ! i < theta ! j"
proof -
  assume ij: "i < j" and j: "j < 360"
  then have "real i < real j" by simp
  then have "real i * ((2 * pi - 2 * eps) / 359) < real j * ((2 * pi - 2 * eps) / 359)"
    using theta_step_pos by (intro mult_strict_right_mono) simp_all
  then show ?thesis using ij j by (simp add: theta_nth)
qed

subsection \<open>The driving profile in float64: properties\<close>

text \<open>
  Rounding: \<open>fl\<close> at a number whose binary exponent is known, and the relative error
  of \<open>fl\<close>, at most \<open>2^-53\<close>.
\<close>

lemma round_even_error: "\<bar>of_int (round_even q) - q\<bar> \<le> 1 / 2"
proof -
  have "of_int \<lfloor>q\<rfloor> \<le> q" "q < of_int \<lfloor>q\<rfloor> + 1" by linarith+
  then show ?thesis by (auto simp add: round_even_def Let_def)
qed

lemma fl_eval:
  assumes "2 powi e \<le> \<bar>x\<bar>" and "\<bar>x\<bar> < 2 powi (e + 1)"
  shows "fl x = of_int (round_even (x / 2 powi (e - 52))) * 2 powi (e - 52)"
proof -
  have pos: "0 < \<bar>x\<bar>" using assms(1) by (smt (verit) zero_less_power_int)
  have "2 powr (of_int e) \<le> \<bar>x\<bar>" "\<bar>x\<bar> < 2 powr (of_int e + 1)"
    using assms powr_real_of_int' [of 2 e] powr_real_of_int' [of 2 "e + 1"] by simp_all
  then have "\<lfloor>log 2 \<bar>x\<bar>\<rfloor> = e"
    using pos by (simp add: floor_log_eq_powr_iff)
  then show ?thesis using pos by (simp add: fl_def Let_def)
qed

lemma fl_error: "\<bar>fl x - x\<bar> \<le> \<bar>x\<bar> / 2 ^ 53"
proof (cases "x = 0")
  case True
  then show ?thesis by (simp add: fl_def)
next
  case False
  define e where "e = \<lfloor>log 2 \<bar>x\<bar>\<rfloor>"
  define u :: real where "u = 2 powi (e - 52)"
  have u: "0 < u" by (simp add: u_def)
  have "2 powr (of_int e) \<le> \<bar>x\<bar>"
    using False by (simp add: e_def powr_le_iff)
  then have le: "2 powi e \<le> \<bar>x\<bar>"
    using powr_real_of_int' [of 2 e] by simp
  have "fl x - x = (of_int (round_even (x / u)) - x / u) * u"
    using False u by (simp add: fl_def Let_def e_def u_def algebra_simps)
  then have "\<bar>fl x - x\<bar> = \<bar>of_int (round_even (x / u)) - x / u\<bar> * u"
    using u by (simp add: abs_mult)
  also have "\<dots> \<le> (1 / 2) * u"
    using round_even_error u by (intro mult_right_mono) simp_all
  also have "\<dots> = 2 powi e / 2 ^ 53"
    by (simp add: u_def power_int_diff)
  also have "\<dots> \<le> \<bar>x\<bar> / 2 ^ 53"
    using le by (simp add: divide_right_mono)
  finally show ?thesis .
qed

text \<open>
  The doubles of lines 40 to 51, each the rounding of one operation on the doubles
  before it: \<^verbatim>\<open>eps\<close>, \<^verbatim>\<open>2*np.pi\<close>, \<^verbatim>\<open>2*np.pi - eps\<close>, the \<^verbatim>\<open>delta\<close> and
  \<^verbatim>\<open>step\<close> of \<^verbatim>\<open>linspace\<close>, the first four entries of \<^verbatim>\<open>theta\<close> and the first
  two of \<^verbatim>\<open>time\<close>, their differences and the quotient.
\<close>

lemma eps64_val: "eps64 = 1152921504606847 / 1152921504606846976"
  unfolding eps64_def
  by (subst fl_eval [where e = "-10"]) (simp_all add: round_even_def Let_def power_int_minus)

lemma two_pi64: "fmul 2 (884279719003555 / 281474976710656) = 884279719003555 / 140737488355328"
  unfolding fmul_def
  by (subst fl_eval [where e = "2"]) (simp_all add: round_even_def Let_def power_int_minus)

lemma stop64: "fsub (884279719003555 / 140737488355328) (1152921504606847 / 1152921504606846976) = 7073111852121597 / 1125899906842624"
  unfolding fsub_def
  by (subst fl_eval [where e = "2"]) (simp_all add: round_even_def Let_def power_int_minus)

lemma delta64: "fsub (7073111852121597 / 1125899906842624) (1152921504606847 / 1152921504606846976) = 3535992976107377 / 562949953421312"
  unfolding fsub_def
  by (subst fl_eval [where e = "2"]) (simp_all add: round_even_def Let_def power_int_minus)

lemma step64: "fdiv (3535992976107377 / 562949953421312) 359 = 5042976055061217 / 288230376151711744"
  unfolding fdiv_def
  by (subst fl_eval [where e = "-6"]) (simp_all add: round_even_def Let_def power_int_minus)

lemma mul0_64: "fmul 0 (5042976055061217 / 288230376151711744) = 0"
  by (simp add: fmul_def fl_def)

lemma theta64_0_val: "fadd 0 (1152921504606847 / 1152921504606846976) = 1152921504606847 / 1152921504606846976"
  unfolding fadd_def
  by (subst fl_eval [where e = "-10"]) (simp_all add: round_even_def Let_def power_int_minus)

lemma mul1_64: "fmul 1 (5042976055061217 / 288230376151711744) = 5042976055061217 / 288230376151711744"
  unfolding fmul_def
  by (subst fl_eval [where e = "-6"]) (simp_all add: round_even_def Let_def power_int_minus)

lemma theta64_1_val: "fadd (5042976055061217 / 288230376151711744) (1152921504606847 / 1152921504606846976) = 5331206431212929 / 288230376151711744"
  unfolding fadd_def
  by (subst fl_eval [where e = "-6"]) (simp_all add: round_even_def Let_def power_int_minus)

lemma mul2_64: "fmul 2 (5042976055061217 / 288230376151711744) = 5042976055061217 / 144115188075855872"
  unfolding fmul_def
  by (subst fl_eval [where e = "-5"]) (simp_all add: round_even_def Let_def power_int_minus)

lemma theta64_2_val: "fadd (5042976055061217 / 144115188075855872) (1152921504606847 / 1152921504606846976) = 5187091243137073 / 144115188075855872"
  unfolding fadd_def
  by (subst fl_eval [where e = "-5"]) (simp_all add: round_even_def Let_def power_int_minus)

lemma mul3_64: "fmul 3 (5042976055061217 / 288230376151711744) = 3782232041295913 / 72057594037927936"
  unfolding fmul_def
  by (subst fl_eval [where e = "-5"]) (simp_all add: round_even_def Let_def power_int_minus)

lemma theta64_3_val: "fadd (3782232041295913 / 72057594037927936) (1152921504606847 / 1152921504606846976) = 3854289635333841 / 72057594037927936"
  unfolding fadd_def
  by (subst fl_eval [where e = "-5"]) (simp_all add: round_even_def Let_def power_int_minus)

lemma diff64_0: "fsub (5331206431212929 / 288230376151711744) (1152921504606847 / 1152921504606846976) = 5042976055061217 / 288230376151711744"
  unfolding fsub_def
  by (subst fl_eval [where e = "-6"]) (simp_all add: round_even_def Let_def power_int_minus)

lemma diff64_2: "fsub (3854289635333841 / 72057594037927936) (5187091243137073 / 144115188075855872) = 2521488027530609 / 144115188075855872"
  unfolding fsub_def
  by (subst fl_eval [where e = "-6"]) (simp_all add: round_even_def Let_def power_int_minus)

lemma tdelta64: "fsub 1 0 = 1"
  unfolding fsub_def
  by (subst fl_eval [where e = "0"]) (simp_all add: round_even_def Let_def power_int_minus)

lemma tstep64: "fdiv 1 359 = 6422961028450401 / 2305843009213693952"
  unfolding fdiv_def
  by (subst fl_eval [where e = "-9"]) (simp_all add: round_even_def Let_def power_int_minus)

lemma tmul0_64: "fmul 0 (6422961028450401 / 2305843009213693952) = 0"
  by (simp add: fmul_def fl_def)

lemma time64_0_val: "fadd 0 0 = 0"
  by (simp add: fadd_def fl_def)

lemma tmul1_64: "fmul 1 (6422961028450401 / 2305843009213693952) = 6422961028450401 / 2305843009213693952"
  unfolding fmul_def
  by (subst fl_eval [where e = "-9"]) (simp_all add: round_even_def Let_def power_int_minus)

lemma time64_1_val: "fadd (6422961028450401 / 2305843009213693952) 0 = 6422961028450401 / 2305843009213693952"
  unfolding fadd_def
  by (subst fl_eval [where e = "-9"]) (simp_all add: round_even_def Let_def power_int_minus)

lemma tdiff64_0: "fsub (6422961028450401 / 2305843009213693952) 0 = 6422961028450401 / 2305843009213693952"
  unfolding fsub_def
  by (subst fl_eval [where e = "-9"]) (simp_all add: round_even_def Let_def power_int_minus)

lemma quot64_0: "fdiv (5042976055061217 / 288230376151711744) (6422961028450401 / 2305843009213693952) = 3535992976107377 / 562949953421312"
  unfolding fdiv_def
  by (subst fl_eval [where e = "2"]) (simp_all add: round_even_def Let_def power_int_minus)

lemma angvel64: "fdiv (884279719003555 / 140737488355328) 1 = 884279719003555 / 140737488355328"
  unfolding fdiv_def
  by (subst fl_eval [where e = "2"]) (simp_all add: round_even_def Let_def power_int_minus)

lemma c_two_eps: "fsub (884279719003555 / 140737488355328) (1152921504606847 / 576460752303423488) = 7071985952214755 / 1125899906842624"
  unfolding fsub_def
  by (subst fl_eval [where e = "2"]) (simp_all add: round_even_def Let_def power_int_minus)

lemma c_nominal: "fdiv (7071985952214755 / 1125899906842624) 359 = 2521488027530609 / 144115188075855872"
  unfolding fdiv_def
  by (subst fl_eval [where e = "-6"]) (simp_all add: round_even_def Let_def power_int_minus)


lemma two_eps64: "fl (2 / 1000) = 1152921504606847 / 576460752303423488"
  by (subst fl_eval [where e = "-9"]) (simp_all add: round_even_def Let_def power_int_minus)

lemma length_linspace64: "length (linspace64 s e n) = n"
  by (simp add: linspace64_def Let_def)

lemma length_theta64: "length theta64 = 360"
  by (simp add: theta64_def n_frames_def length_linspace64)

lemma length_time64: "length time64 = 360"
  by (simp add: time64_def n_frames_def length_linspace64)

lemma theta64_nth:
  "i < 359 \<Longrightarrow> theta64 ! i = fadd (fmul (real i) (5042976055061217 / 288230376151711744)) (1152921504606847 / 1152921504606846976)"
  by (simp add: theta64_def linspace64_def Let_def n_frames_def eps64_val np_pi_def
      two_pi64 stop64 delta64 step64)

lemma theta64_last: "theta64 ! 359 = 7073111852121597 / 1125899906842624"
  by (simp add: theta64_def linspace64_def Let_def n_frames_def eps64_val np_pi_def
      two_pi64 stop64)

lemma time64_nth:
  "i < 359 \<Longrightarrow> time64 ! i = fadd (fmul (real i) (6422961028450401 / 2305843009213693952)) 0"
  by (simp add: time64_def linspace64_def Let_def n_frames_def tdelta64 tstep64)

lemma time64_last: "time64 ! 359 = 1"
  by (simp add: time64_def linspace64_def Let_def n_frames_def)

lemma angular_velocity64_val: "angular_velocity64 = 2 * np_pi"
  by (simp add: angular_velocity64_def length_time64 time64_last time64_nth
      tmul0_64 time64_0_val tdelta64 np_pi_def two_pi64 angvel64)

lemma omega64_nth: "i < 360 \<Longrightarrow> omega64 ! i = 2 * np_pi"
  by (simp add: omega64_def full_def n_frames_def angular_velocity64_val)

lemma theta64_first_four:
  "theta64 ! 0 = 1152921504606847 / 1152921504606846976" "theta64 ! 1 = 5331206431212929 / 288230376151711744"
  "theta64 ! 2 = 5187091243137073 / 144115188075855872" "theta64 ! 3 = 3854289635333841 / 72057594037927936"
proof -
  have "theta64 ! 0 = fadd (fmul (real 0) (5042976055061217 / 288230376151711744)) (1152921504606847 / 1152921504606846976)"
    by (rule theta64_nth) simp
  then show "theta64 ! 0 = 1152921504606847 / 1152921504606846976"
    by (simp only: of_nat_0 mul0_64 theta64_0_val)
  have "theta64 ! 1 = fadd (fmul (real 1) (5042976055061217 / 288230376151711744)) (1152921504606847 / 1152921504606846976)"
    by (rule theta64_nth) simp
  then show "theta64 ! 1 = 5331206431212929 / 288230376151711744"
    by (simp only: of_nat_1 mul1_64 theta64_1_val)
  have "theta64 ! 2 = fadd (fmul (real 2) (5042976055061217 / 288230376151711744)) (1152921504606847 / 1152921504606846976)"
    by (rule theta64_nth) simp
  then show "theta64 ! 2 = 5187091243137073 / 144115188075855872"
    by (simp only: of_nat_numeral mul2_64 theta64_2_val)
  have "theta64 ! 3 = fadd (fmul (real 3) (5042976055061217 / 288230376151711744)) (1152921504606847 / 1152921504606846976)"
    by (rule theta64_nth) simp
  then show "theta64 ! 3 = 3854289635333841 / 72057594037927936"
    by (simp only: of_nat_numeral mul3_64 theta64_3_val)
qed

lemma time64_first_two: "time64 ! 0 = 0" "time64 ! 1 = 6422961028450401 / 2305843009213693952"
proof -
  have "time64 ! 0 = fadd (fmul (real 0) (6422961028450401 / 2305843009213693952)) 0"
    by (rule time64_nth) simp
  then show "time64 ! 0 = 0"
    by (simp only: of_nat_0 tmul0_64 time64_0_val)
  have "time64 ! 1 = fadd (fmul (real 1) (6422961028450401 / 2305843009213693952)) 0"
    by (rule time64_nth) simp
  then show "time64 ! 1 = 6422961028450401 / 2305843009213693952"
    by (simp only: of_nat_1 tmul1_64 time64_1_val)
qed

text \<open>
  Claim C10 says that every two consecutive driving positions differ by the same
  constant \<open>(2 pi - 2/1000) / 359\<close>. In float64 they do not: the step from sample 0
  to sample 1 is not the step from sample 2 to sample 3, as doubles and as exact
  differences of the doubles, and it is not the double that \<^verbatim>\<open>(2*np.pi - 2e-3)/359\<close>
  evaluates to.
\<close>

theorem theta64_steps_differ:
  "fsub (theta64 ! 1) (theta64 ! 0) \<noteq> fsub (theta64 ! 3) (theta64 ! 2) \<and>
   theta64 ! 1 - theta64 ! 0 \<noteq> theta64 ! 3 - theta64 ! 2 \<and>
   fsub (theta64 ! 1) (theta64 ! 0) \<noteq> fdiv (fsub (fmul 2 np_pi) (fl (2 / 1000))) 359"
  unfolding theta64_first_four np_pi_def two_pi64 two_eps64 diff64_0 diff64_2 c_two_eps c_nominal
  by simp

text \<open>
  Claim C5 says that the finite difference of the driving positions over the sample
  spacing equals the declared velocity \<open>omega[i]\<close>. At the first pair of samples the
  script's arrays give the quotient \<^verbatim>\<open>6.281185307179586\<close>, while \<open>omega[0]\<close> is
  \<^verbatim>\<open>2*np.pi = 6.283185307179586\<close>: the quotient is more than \<open>1/1000\<close> below the
  declared velocity. Line 45 computes \<^verbatim>\<open>theta = angular_velocity * time\<close>, whose
  rate is \<^verbatim>\<open>omega\<close>; line 51 rebinds \<^verbatim>\<open>theta\<close> to the shortened sweep and leaves
  \<^verbatim>\<open>omega\<close> at the rate of the full sweep.
\<close>

theorem finite_difference_mismatch:
  "fdiv (fsub (theta64 ! 1) (theta64 ! 0)) (fsub (time64 ! 1) (time64 ! 0)) = 3535992976107377 / 562949953421312 \<and>
   omega64 ! 0 = 2 * np_pi \<and>
   fdiv (fsub (theta64 ! 1) (theta64 ! 0)) (fsub (time64 ! 1) (time64 ! 0)) < omega64 ! 0 - 1 / 1000"
proof -
  have q: "fdiv (fsub (theta64 ! 1) (theta64 ! 0)) (fsub (time64 ! 1) (time64 ! 0)) = 3535992976107377 / 562949953421312"
    unfolding theta64_first_four time64_first_two diff64_0 tdiff64_0 quot64_0 ..
  have w: "omega64 ! 0 = 2 * np_pi" by (simp add: omega64_nth)
  have "(3535992976107377 / 562949953421312 :: real) < 2 * np_pi - 1 / 1000"
    by (simp add: np_pi_def)
  with q w show ?thesis by simp
qed


text \<open>
  Every entry of \<^verbatim>\<open>theta\<close> is within \<open>2^-49\<close> of its place on the exact line
  \<open>i * step + eps\<close>, where \<open>step\<close> is the double that \<^verbatim>\<open>linspace\<close> computes.
\<close>

lemma fl_near: "0 \<le> x \<Longrightarrow> x \<le> 8 \<Longrightarrow> \<bar>fl x - x\<bar> \<le> 1 / 2 ^ 50"
proof -
  assume "0 \<le> x" and "x \<le> 8"
  then have "\<bar>x\<bar> / 2 ^ 53 \<le> 8 / 2 ^ 53" by (simp add: divide_right_mono)
  with fl_error [of x] show ?thesis by simp
qed

lemma theta64_near:
  "i < 360 \<Longrightarrow>
     \<bar>theta64 ! i - (real i * (5042976055061217 / 288230376151711744) + 1152921504606847 / 1152921504606846976)\<bar> \<le> 2 * (1 / 2 ^ 50)"
proof (cases "i = 359")
  case True
  then show ?thesis by (simp add: theta64_last)
next
  case False
  assume "i < 360"
  with False have i: "i < 359" by simp
  define S :: real where "S = 5042976055061217 / 288230376151711744"
  define E :: real where "E = 1152921504606847 / 1152921504606846976"
  define b :: real where "b = 1 / 2 ^ 50"
  have S: "0 < S" "359 * S \<le> 7" by (simp_all add: S_def)
  have E: "b \<le> E" "E \<le> 1 / 2" by (simp_all add: E_def b_def)
  have b: "0 < b" "b \<le> 1 / 2" by (simp_all add: b_def)
  have "real i \<le> 359" using i by simp
  then have m: "real i * S \<le> 359 * S" using S(1) by (intro mult_right_mono) simp_all
  have x: "0 \<le> real i * S" "real i * S \<le> 7"
  proof -
    show "0 \<le> real i * S" using S(1) by (intro mult_nonneg_nonneg) simp_all
    show "real i * S \<le> 7" using m S(2) by linarith
  qed
  then have a: "\<bar>fl (real i * S) - real i * S\<bar> \<le> b"
    unfolding b_def by (intro fl_near) simp_all
  have "0 \<le> fl (real i * S) + E" "fl (real i * S) + E \<le> 8"
    using x E a b by linarith+
  then have c: "\<bar>fl (fl (real i * S) + E) - (fl (real i * S) + E)\<bar> \<le> b"
    unfolding b_def by (intro fl_near)
  have t: "theta64 ! i = fl (fl (real i * S) + E)"
    using i by (simp add: theta64_nth fadd_def fmul_def S_def E_def)
  have "\<bar>theta64 ! i - (real i * S + E)\<bar> \<le> 2 * b"
    unfolding t using a c by linarith
  then show ?thesis by (simp only: S_def E_def b_def)
qed

lemma theta64_less: "i < j \<Longrightarrow> j < 360 \<Longrightarrow> theta64 ! i < theta64 ! j"
proof -
  assume ij: "i < j" and j: "j < 360"
  define S :: real where "S = 5042976055061217 / 288230376151711744"
  define E :: real where "E = 1152921504606847 / 1152921504606846976"
  define b :: real where "b = 1 / 2 ^ 50"
  have S: "4 * b < S" by (simp add: S_def b_def)
  have "real i + 1 \<le> real j" using ij by simp
  then have "(real i + 1) * S \<le> real j * S"
    using S by (intro mult_right_mono) (simp_all add: b_def)
  then have d: "real i * S + S \<le> real j * S" by (simp add: algebra_simps)
  have ni: "\<bar>theta64 ! i - (real i * S + E)\<bar> \<le> 2 * b"
    unfolding S_def E_def b_def using ij j by (intro theta64_near) simp
  have nj: "\<bar>theta64 ! j - (real j * S + E)\<bar> \<le> 2 * b"
    unfolding S_def E_def b_def using j by (intro theta64_near)
  from d ni nj S show ?thesis by linarith
qed

text \<open>
  Claim C10, amended. In float64 the driving positions increase strictly: every step
  \<^verbatim>\<open>theta[i+1] - theta[i]\<close> is positive and within \<open>10^-14\<close> of
  \<open>(2 np.pi - 2/1000) / 359\<close>. (The steps are not all equal, as shown above.)
\<close>

theorem theta64_increasing:
  "i < n_frames - 1 \<Longrightarrow>
     theta64 ! i < theta64 ! (i + 1) \<and>
     0 < fsub (theta64 ! (i + 1)) (theta64 ! i) \<and>
     \<bar>fsub (theta64 ! (i + 1)) (theta64 ! i) - (2 * np_pi - 2 / 1000) / 359\<bar> < 1 / 10 ^ 14 \<and>
     sorted_wrt (<) theta64"
proof -
  assume "i < n_frames - 1"
  then have i: "i < 359" by (simp add: n_frames_def)
  define S :: real where "S = 5042976055061217 / 288230376151711744"
  define E :: real where "E = 1152921504606847 / 1152921504606846976"
  define b :: real where "b = 1 / 2 ^ 50"
  define c :: real where "c = (2 * np_pi - 2 / 1000) / 359"
  define D where "D = theta64 ! (i + 1) - theta64 ! i"
  have S: "5 * b < S" "S \<le> 1" by (simp_all add: S_def b_def)
  have b: "0 < b" "6 * b < 1 / 10 ^ 14" by (simp_all add: b_def)
  have nom: "\<bar>S - c\<bar> \<le> b"
    by (simp add: S_def c_def b_def np_pi_def)
  have lt: "theta64 ! i < theta64 ! (i + 1)" using i by (intro theta64_less) simp_all
  have n0: "\<bar>theta64 ! i - (real i * S + E)\<bar> \<le> 2 * b"
    unfolding S_def E_def b_def using i by (intro theta64_near) simp
  have n1: "\<bar>theta64 ! (i + 1) - (real (i + 1) * S + E)\<bar> \<le> 2 * b"
    unfolding S_def E_def b_def using i by (intro theta64_near) simp
  have e: "real (i + 1) * S = real i * S + S" by (simp add: algebra_simps)
  have D: "\<bar>D - S\<bar> \<le> 4 * b" unfolding D_def using n0 n1 e by linarith
  have D8: "0 \<le> D" "D \<le> 8" using D S b by linarith+
  have f: "\<bar>fl D - D\<bar> \<le> b" unfolding b_def using D8 by (intro fl_near)
  have pos: "0 < fl D" using f D S by linarith
  have near: "\<bar>fl D - c\<bar> < 1 / 10 ^ 14" using f D nom b by linarith
  have srt: "sorted_wrt (<) theta64"
    by (simp add: sorted_wrt_iff_nth_less length_theta64 theta64_less)
  from lt pos near srt show ?thesis
    unfolding fsub_def D_def c_def by blast
qed

text \<open>The amended statement of C10 at the first pair of samples.\<close>

theorem theta64_increasing_witness:
  "(0::nat) < n_frames - 1 \<and>
   theta64 ! 0 < theta64 ! (0 + 1) \<and>
   0 < fsub (theta64 ! (0 + 1)) (theta64 ! 0) \<and>
   \<bar>fsub (theta64 ! (0 + 1)) (theta64 ! 0) - (2 * np_pi - 2 / 1000) / 359\<bar> < 1 / 10 ^ 14 \<and>
   sorted_wrt (<) theta64"
proof -
  have "(0::nat) < n_frames - 1" by (simp add: n_frames_def)
  from this theta64_increasing [OF this] show ?thesis by blast
qed

subsection \<open>The loop function\<close>

lemma record_sample_fixed:
  "vec_r (record_sample v s) = vec_r v" "vec_theta (record_sample v s) = vec_theta v"
  "joints (record_sample v s) = joints v" "style (record_sample v s) = style v"
  by (cases s, simp add: record_sample_def)+

lemma evaluate_record_sample: "evaluate (record_sample v s) t = evaluate v t"
  by (simp add: evaluate_def record_sample_fixed split: option.splits)

lemma evaluate_recorded: "evaluate (foldl record_sample v ss) t = evaluate v t"
  by (induction ss arbitrary: v) (simp_all add: evaluate_record_sample)

lemma loop_eval_terms: "loop x input = eval_terms (0, 0) loop_terms x input"
  by (simp add: loop_def loop_env_def loop_terms_def arg_angle_def and_then_def vadd_def vsub_def
      split: sum.splits)

text \<open>
  Claim C1. For every pair of unknown angles \<open>x[0]\<close>, \<open>x[1]\<close> (and whatever follows
  them in \<open>x\<close>) and every driving angle, \<open>loop\<close> returns the residual
  \<open>a(input) + b(x[0]) - c() - d(x[1])\<close>: in each coordinate the input link's and the
  coupler's components added, the ground link's and the output link's subtracted, each
  component the link's length times the cosine (the sine) of its angle. With the
  script's lengths and ground angle that is
  \<open>(cos input + 3 cos x[0] + 3 - cos x[1], sin input + 3 sin x[0] - sin x[1])\<close>, an
  expression in \<open>x[0]\<close>, \<open>x[1]\<close> and \<open>input\<close> alone. The body reads the four
  module-level vectors; of them only the four lengths and the declared angle of \<open>c\<close>
  enter its value, which the script sets once, and samples recorded on the vectors
  leave the value as it is.
\<close>

theorem loop_residual:
  "loop (x0 # x1 # xs) input =
     Inr (L_INPUT * cos input + L_COUPLER * cos x0 - L_GROUND * cos pi - L_OUTPUT * cos x1,
          L_INPUT * sin input + L_COUPLER * sin x0 - L_GROUND * sin pi - L_OUTPUT * sin x1) \<and>
   loop (x0 # x1 # xs) input =
     Inr (cos input + 3 * cos x0 + 3 - cos x1, sin input + 3 * sin x0 - sin x1) \<and>
   loop_env va vb vc vd (x0 # x1 # xs) input =
     (case vec_theta vc of
        None \<Rightarrow> Inl DomainError
      | Some t \<Rightarrow>
          Inr (vec_r va * cos input + vec_r vb * cos x0 - vec_r vc * cos t - vec_r vd * cos x1,
               vec_r va * sin input + vec_r vb * sin x0 - vec_r vc * sin t - vec_r vd * sin x1)) \<and>
   loop_env (foldl record_sample vec_a sa) (foldl record_sample vec_b sb)
     (foldl record_sample vec_c sc) (foldl record_sample vec_d sd) x input = loop x input"
proof -
  have env: "loop_env va vb vc vd (x0 # x1 # xs) input =
     (case vec_theta vc of
        None \<Rightarrow> Inl DomainError
      | Some t \<Rightarrow>
          Inr (vec_r va * cos input + vec_r vb * cos x0 - vec_r vc * cos t - vec_r vd * cos x1,
               vec_r va * sin input + vec_r vb * sin x0 - vec_r vc * sin t - vec_r vd * sin x1))"
    for va vb vc vd
    by (simp add: loop_env_def evaluate_def getitem_def and_then_def polar_def vadd_def vsub_def
        split: option.splits)
  have script: "loop (x0 # x1 # xs) input =
     Inr (L_INPUT * cos input + L_COUPLER * cos x0 - L_GROUND * cos pi - L_OUTPUT * cos x1,
          L_INPUT * sin input + L_COUPLER * sin x0 - L_GROUND * sin pi - L_OUTPUT * sin x1)"
    unfolding loop_def env
    by (simp add: vec_a_def vec_b_def vec_c_def vec_d_def Vector_def)
  have numbers: "loop (x0 # x1 # xs) input =
     Inr (cos input + 3 * cos x0 + 3 - cos x1, sin input + 3 * sin x0 - sin x1)"
    unfolding script
    by (simp add: L_INPUT_def L_COUPLER_def L_GROUND_def L_OUTPUT_def)
  have recorded: "loop_env (foldl record_sample vec_a sa) (foldl record_sample vec_b sb)
     (foldl record_sample vec_c sc) (foldl record_sample vec_d sd) x input = loop x input"
    by (simp add: loop_def loop_env_def evaluate_recorded)
  from script numbers env recorded show ?thesis by blast
qed

lemma loop_short: "length x < 2 \<Longrightarrow> loop x input = Inl IndexError"
  by (cases x) (auto simp add: loop_def loop_env_def evaluate_def getitem_def and_then_def
      vec_a_def vec_b_def vec_c_def vec_d_def Vector_def)

text \<open>
  Claim C4. Each of the three guesses has as many entries as there are unknown angles,
  and that number is 2: the unknowns are \<open>x[0]\<close> and \<open>x[1]\<close>, the angles of the
  vectors b and d in the body of \<open>loop\<close>.
\<close>

theorem guess_lengths:
  "length pos_guess = n_unknowns \<and> length vel_guess = n_unknowns \<and>
   length acc_guess = n_unknowns \<and> n_unknowns = 2 \<and>
   unknown_indices (map (\<lambda>t. snd (snd t)) loop_terms) = [0, 1] \<and>
   unknown_vectors = [vec_b, vec_d] \<and>
   (\<forall>x input. loop x input = eval_terms (0, 0) loop_terms x input)"
  by (simp add: pos_guess_def vel_guess_def acc_guess_def deg2rad_def n_unknowns_def
      unknown_indices_def unknown_vectors_def loop_terms_def loop_eval_terms [unfolded loop_terms_def])

subsection \<open>The run\<close>













end
